theory Spec2Isabelle
  imports Complex_Main
begin

section \<open>Conventions of the embedding\<close>

text \<open>
  The evaluation engine of the translation benchmark is embedded function by function.
  Python floats are modelled as \<^typ>\<open>real\<close> (exact arithmetic), except in the cosine
  similarity, where the single-precision arithmetic of numpy is modelled with its rounding.
  A text is a \<^typ>\<open>string\<close> whose characters are the code points U+0000 to U+00FF, with
  the character classes of Python on that range written out; texts with other code points
  are outside the embedding.  Dictionaries are association lists in insertion order, and
  every exception a function can raise is a value of \<open>py_error\<close> on the left of a sum.
  What the sources import from outside the repository (the language detector, the
  embedding model, the YAML file behind the configuration manager, Python's fixed-point
  float formatting) is taken as a parameter.
\<close>

datatype py_error =
    ZeroDivisionError
  | ValueError string

subsection \<open>Characters and strings\<close>

definition in_ranges :: "nat \<Rightarrow> (nat \<times> nat) list \<Rightarrow> bool" where
  \<comment> \<open>the code point lies in one of the closed intervals\<close>
  "in_ranges k rs \<longleftrightarrow> list_ex (\<lambda>(a, b). a \<le> k \<and> k \<le> b) rs"

definition is_space :: "char \<Rightarrow> bool" where
  \<comment> \<open>\<open>str.isspace\<close>, which is also what \<open>str.split()\<close> and \<open>str.strip()\<close> take for white space:
      U+0009..U+000D, U+001C..U+0020, U+0085 and U+00A0\<close>
  "is_space c \<longleftrightarrow> in_ranges (of_char c) [(0x09, 0x0D), (0x1C, 0x20), (0x85, 0x85), (0xA0, 0xA0)]"

definition is_digit :: "char \<Rightarrow> bool" where
  \<comment> \<open>the class \<^verbatim>\<open>\d\<close> of the \<open>re\<close> module: the decimal digits, below U+0100 the ASCII ones\<close>
  "is_digit c \<longleftrightarrow> in_ranges (of_char c) [(0x30, 0x39)]"

definition is_upper :: "char \<Rightarrow> bool" where
  \<comment> \<open>\<open>str.isupper\<close> of one character\<close>
  "is_upper c \<longleftrightarrow> in_ranges (of_char c) [(0x41, 0x5A), (0xC0, 0xD6), (0xD8, 0xDE)]"

definition is_lower :: "char \<Rightarrow> bool" where
  \<comment> \<open>\<open>str.islower\<close> of one character\<close>
  "is_lower c \<longleftrightarrow>
     in_ranges (of_char c)
       [(0x61, 0x7A), (0xAA, 0xAA), (0xB5, 0xB5), (0xBA, 0xBA), (0xDF, 0xF6), (0xF8, 0xFF)]"

definition is_cased :: "char \<Rightarrow> bool" where
  "is_cased c \<longleftrightarrow> is_upper c \<or> is_lower c"

definition is_word :: "char \<Rightarrow> bool" where
  \<comment> \<open>the class \<^verbatim>\<open>\w\<close> of the \<open>re\<close> module on a \<open>str\<close>: the alphanumeric characters (letters,
      digits, and the numeric characters such as U+00B2 and U+00BC) and the underscore\<close>
  "is_word c \<longleftrightarrow>
     in_ranges (of_char c)
       [(0x30, 0x39), (0x41, 0x5A), (0x5F, 0x5F), (0x61, 0x7A), (0xAA, 0xAA), (0xB2, 0xB3),
        (0xB5, 0xB5), (0xB9, 0xBA), (0xBC, 0xBE), (0xC0, 0xD6), (0xD8, 0xF6), (0xF8, 0xFF)]"

definition lower :: "char \<Rightarrow> char" where
  \<comment> \<open>\<open>str.lower\<close> of one character: the upper-case letters lie 32 below their lower case\<close>
  "lower c = (if is_upper c then char_of ((of_char c :: nat) + 32) else c)"

definition upper :: "char \<Rightarrow> char" where
  \<comment> \<open>the title case of one character, as \<open>str.title\<close> uses it.  The title case of U+00B5,
      U+00DF and U+00FF lies above U+00FF; they are left as they are here.  The sources
      apply \<open>title\<close> to the names of the kept metrics only, which are ASCII.\<close>
  "upper c =
     (if in_ranges (of_char c) [(0x61, 0x7A), (0xE0, 0xF6), (0xF8, 0xFE)]
      then char_of ((of_char c :: nat) - 32) else c)"

definition str_lower :: "string \<Rightarrow> string" where
  "str_lower s = map lower s"

fun split_from :: "string \<Rightarrow> string \<Rightarrow> string list" where
  \<comment> \<open>\<open>str.split()\<close>: the first argument is the word read so far\<close>
  "split_from w [] = (if w = [] then [] else [w])"
| "split_from w (c # cs) =
     (if is_space c then (if w = [] then split_from [] cs else w # split_from [] cs)
      else split_from (w @ [c]) cs)"

definition split :: "string \<Rightarrow> string list" where
  "split s = split_from [] s"

definition blank :: "string \<Rightarrow> bool" where
  \<comment> \<open>\<open>not text or not text.strip()\<close>\<close>
  "blank s \<longleftrightarrow> s = [] \<or> list_all is_space s"

fun join :: "string \<Rightarrow> string list \<Rightarrow> string" where
  "join sep [] = []"
| "join sep [x] = x"
| "join sep (x # y # ys) = x @ sep @ join sep (y # ys)"

fun title_from :: "bool \<Rightarrow> string \<Rightarrow> string" where
  \<comment> \<open>\<open>str.title()\<close>: the flag says whether the previous character was cased\<close>
  "title_from prev [] = []"
| "title_from prev (c # cs) = (if prev then lower c else upper c) # title_from (is_cased c) cs"

definition title :: "string \<Rightarrow> string" where
  "title s = title_from False s"

definition replace_char :: "char \<Rightarrow> char \<Rightarrow> string \<Rightarrow> string" where
  "replace_char a b s = map (\<lambda>c. if c = a then b else c) s"

subsection \<open>Configuration manager\<close>

text \<open>
  \<open>ConfigManager.get\<close> walks the loaded YAML along a dotted key and returns the default
  when a step is missing.  The YAML file is not part of the sources, so the configuration
  is the value stored under each dotted key, as the callers spell it.
\<close>

record config =
  floats :: "string \<rightharpoonup> real"
  flags :: "string \<rightharpoonup> bool"
  texts :: "string \<rightharpoonup> string"

definition get_float :: "config \<Rightarrow> string \<Rightarrow> real \<Rightarrow> real" where
  "get_float cfg key dflt = (case floats cfg key of None \<Rightarrow> dflt | Some v \<Rightarrow> v)"

definition get_flag :: "config \<Rightarrow> string \<Rightarrow> bool \<Rightarrow> bool" where
  "get_flag cfg key dflt = (case flags cfg key of None \<Rightarrow> dflt | Some v \<Rightarrow> v)"

definition get_text :: "config \<Rightarrow> string \<Rightarrow> string \<Rightarrow> string" where
  "get_text cfg key dflt = (case texts cfg key of None \<Rightarrow> dflt | Some v \<Rightarrow> v)"

definition config_get_metric_weight :: "config \<Rightarrow> string \<Rightarrow> string \<Rightarrow> real" where
  "config_get_metric_weight cfg category metric =
     get_float cfg (''metrics.'' @ category @ ''.'' @ metric @ ''.weight'') 0"

definition is_metric_enabled :: "config \<Rightarrow> string \<Rightarrow> string \<Rightarrow> bool" where
  "is_metric_enabled cfg category metric =
     get_flag cfg (''metrics.'' @ category @ ''.'' @ metric @ ''.enabled'') False"

definition METRIC_OVERALL :: string where
  "METRIC_OVERALL = ''overall_score''"

definition CATEGORY_HEURISTICS :: string where
  "CATEGORY_HEURISTICS = ''heuristics''"

definition CATEGORY_SEMANTIC :: string where
  "CATEGORY_SEMANTIC = ''semantic''"

subsection \<open>Schemas\<close>

datatype detail =
    DNone
  | DBool bool
  | DInt int
  | DFloat real
  | DStr string
  | DScores "(string \<times> real) list"

text \<open>
  A metric returns a dictionary.  The fusion step reads the keys \<open>score\<close> (absent: 0.0) and
  \<open>warning\<close> (absent or \<open>None\<close>: no warning); the other entries are kept as they are.
\<close>

record metric_outcome =
  score :: "real option"
  warning :: "string option"
  extras :: "(string \<times> detail) list"

record metric_result =
  name :: string
  "value" :: real
  weight :: real
  details :: metric_outcome

record score_breakdown =
  overall_score :: real
  metrics :: "metric_result list"
  warnings :: "string list"
  explanation :: "string option"

record evaluation_result =
  translation_id :: int
  provider_name :: string
  model_id :: string
  score_breakdown :: score_breakdown

section \<open>Heuristic metrics\<close>

definition py_div :: "real \<Rightarrow> real \<Rightarrow> py_error + real" where
  \<comment> \<open>float division raises on a zero divisor\<close>
  "py_div a b = (if b = 0 then Inl ZeroDivisionError else Inr (a / b))"

definition digit_char :: "nat \<Rightarrow> char" where
  "digit_char d = ''0123456789'' ! (d mod 10)"

fun str_nat :: "nat \<Rightarrow> string" where
  "str_nat n = (if n < 10 then [digit_char n] else str_nat (n div 10) @ [digit_char n])"

declare str_nat.simps [simp del]

definition str_int :: "int \<Rightarrow> string" where
  "str_int i = (if i < 0 then CHR ''-'' # str_nat (nat (- i)) else str_nat (nat i))"

subsection \<open>Length ratio\<close>

definition WARN_LENGTH_ANOMALY :: string where
  "WARN_LENGTH_ANOMALY = ''Unusual length ratio detected''"

definition length_ratio_evaluate ::
  "(nat \<Rightarrow> real \<Rightarrow> string) \<Rightarrow> real \<Rightarrow> real \<Rightarrow> string \<Rightarrow> string \<Rightarrow> py_error + metric_outcome" where
  \<comment> \<open>the division by \<open>source_len\<close> is behind the test \<open>source_len == 0\<close>; the four divisions
      of the scoring curve have no such test\<close>
  "length_ratio_evaluate fmt min_ratio max_ratio source_text target_text =
     (let source_len = length source_text;
          target_len = length target_text
      in if source_len = 0 then
           Inr \<lparr>score = Some 0, warning = Some ''Empty source text'',
                extras = [(''ratio'', DFloat 0), (''source_length'', DInt 0),
                          (''target_length'', DInt (int target_len))]\<rparr>
         else if target_len = 0 then
           Inr \<lparr>score = Some 0, warning = Some ''Empty translation'',
                extras = [(''ratio'', DFloat 0), (''source_length'', DInt (int source_len)),
                          (''target_length'', DInt 0)]\<rparr>
         else
           let ratio = real target_len / real source_len;
               computed =
                 (if min_ratio \<le> ratio \<and> ratio \<le> max_ratio then
                    (case (if ratio < 1 then py_div (ratio - min_ratio) (1 - min_ratio)
                           else py_div (max_ratio - ratio) (max_ratio - 1)) of
                       Inl e \<Rightarrow> Inl e
                     | Inr q \<Rightarrow> Inr (max 50 (q * 100)))
                  else
                    (case (if ratio < min_ratio then py_div ratio min_ratio
                           else py_div max_ratio ratio) of
                       Inl e \<Rightarrow> Inl e
                     | Inr q \<Rightarrow> Inr (max 0 (min 50 (q * 50)))))
           in case computed of
                Inl e \<Rightarrow> Inl e
              | Inr sc \<Rightarrow>
                  let warn =
                        (if ratio < min_ratio then
                           Some (WARN_LENGTH_ANOMALY @ '': translation too short (ratio: ''
                                 @ fmt 2 ratio @ '')'')
                         else if ratio > max_ratio then
                           Some (WARN_LENGTH_ANOMALY @ '': translation too long (ratio: ''
                                 @ fmt 2 ratio @ '')'')
                         else None)
                  in Inr \<lparr>score = Some sc, warning = warn,
                          extras = [(''ratio'', DFloat ratio),
                                    (''source_length'', DInt (int source_len)),
                                    (''target_length'', DInt (int target_len))]\<rparr>)"

subsection \<open>Repetition\<close>

definition WARN_HIGH_REPETITION :: string where
  "WARN_HIGH_REPETITION = ''High repetition detected in translation''"

definition get_ngrams :: "string \<Rightarrow> nat \<Rightarrow> string list list" where
  "get_ngrams text n =
     (let wds = split (str_lower text)
      in if length wds < n then []
         else map (\<lambda>i. take n (drop i wds)) [0 ..< length wds - n + 1])"

definition counter :: "'a list \<Rightarrow> ('a \<times> nat) list" where
  \<comment> \<open>\<open>collections.Counter\<close>: every distinct element with the number of its occurrences\<close>
  "counter xs = map (\<lambda>x. (x, count_list xs x)) (remdups xs)"

fun max_list :: "nat list \<Rightarrow> nat" where
  \<comment> \<open>\<open>max\<close> of a sequence; it is only called on the counts of a non-empty list\<close>
  "max_list [] = 0"
| "max_list (x # xs) = fold max xs x"

definition calculate_repetition_score :: "'a list \<Rightarrow> real" where
  \<comment> \<open>both divisions are behind the tests that the list is not empty\<close>
  "calculate_repetition_score ngrams =
     (if ngrams = [] then 0
      else
        let ngram_counts = counter ngrams;
            total_ngrams = length ngrams;
            unique_ngrams = length ngram_counts
        in if total_ngrams = 0 then 0
           else
             let repetition = 1 - real unique_ngrams / real total_ngrams;
                 max_count = max_list (map snd ngram_counts)
             in if max_count > 1 then
                  (let frequency_factor = min (real max_count / real total_ngrams) 1
                   in max repetition frequency_factor)
                else repetition)"

definition repetition_step ::
  "string \<Rightarrow> nat \<Rightarrow> (string \<times> real) list \<times> real \<Rightarrow> (string \<times> real) list \<times> real" where
  \<comment> \<open>the body of the loop over the n-gram sizes\<close>
  "repetition_step target_text n acc =
     (case acc of (repetition_scores, max_repetition) \<Rightarrow>
        let ngrams = get_ngrams target_text n
        in if ngrams \<noteq> [] then
             (let rep_score = calculate_repetition_score ngrams
              in (repetition_scores @ [(str_nat n @ ''-gram'', rep_score)],
                  max max_repetition rep_score))
           else (repetition_scores, max_repetition))"

definition repetition_evaluate ::
  "(nat \<Rightarrow> real \<Rightarrow> string) \<Rightarrow> nat \<Rightarrow> real \<Rightarrow> string \<Rightarrow> string \<Rightarrow> metric_outcome" where
  "repetition_evaluate fmt max_ngram_size threshold source_text target_text =
     (if blank target_text then
        \<lparr>score = Some 0, warning = Some ''Empty translation'',
         extras = [(''repetition_score'', DFloat 0)]\<rparr>
      else
        case fold (repetition_step target_text) [2 ..< max_ngram_size + 1] ([], 0) of
          (repetition_scores, max_repetition) \<Rightarrow>
            let sc = (1 - max_repetition) * 100;
                warn = (if max_repetition > threshold then
                          Some (WARN_HIGH_REPETITION @ '' (score: '' @ fmt 2 max_repetition @ '')'')
                        else None)
            in \<lparr>score = Some sc, warning = warn,
                extras = [(''repetition_score'', DFloat max_repetition),
                          (''ngram_scores'', DScores repetition_scores)]\<rparr>)"

definition MAX_NGRAM_SIZE :: nat where
  "MAX_NGRAM_SIZE = 4"

definition REPETITION_THRESHOLD :: real where
  "REPETITION_THRESHOLD = 3 / 10"

subsection \<open>Language detection\<close>

definition WARN_LOW_CONFIDENCE :: string where
  "WARN_LOW_CONFIDENCE = ''Low confidence in language detection''"

text \<open>
  \<open>detect_langs\<close> belongs to the \<open>langdetect\<close> package: it returns the ranked list of
  languages with their probabilities or raises \<open>LangDetectException\<close>, here \<open>Inl\<close> with the
  exception's message.
\<close>

type_synonym detector = "string \<Rightarrow> string + (string \<times> real) list"

definition language_detection_evaluate ::
  "detector \<Rightarrow> real \<Rightarrow> string \<Rightarrow> string \<Rightarrow> string \<Rightarrow> metric_outcome" where
  "language_detection_evaluate detect_langs confidence_threshold source_text target_text target_lang =
     (if blank target_text then
        \<lparr>score = Some 0, warning = Some ''Empty translation'',
         extras = [(''detected_lang'', DNone), (''confidence'', DFloat 0),
                   (''matches_target'', DBool False)]\<rparr>
      else
        case detect_langs target_text of
          Inl msg \<Rightarrow>
            \<lparr>score = Some 50, warning = Some (''Language detection error: '' @ msg),
             extras = [(''detected_lang'', DNone), (''confidence'', DFloat 0),
                       (''matches_target'', DNone)]\<rparr>
        | Inr [] \<Rightarrow>
            \<lparr>score = Some 0, warning = Some ''Could not detect language'',
             extras = [(''detected_lang'', DNone), (''confidence'', DFloat 0),
                       (''matches_target'', DBool False)]\<rparr>
        | Inr ((detected_lang, confidence) # others) \<Rightarrow>
            let matches_target = (detected_lang = target_lang);
                sc = (if matches_target then
                        (if confidence \<ge> confidence_threshold then 100 else confidence * 100)
                      else 0);
                warn = (if \<not> matches_target then
                          Some (''Language mismatch: expected '' @ [CHR 0x27] @ target_lang
                                @ [CHR 0x27] @ '', detected '' @ [CHR 0x27] @ detected_lang
                                @ [CHR 0x27])
                        else if confidence < confidence_threshold then Some WARN_LOW_CONFIDENCE
                        else None)
            in \<lparr>score = Some sc, warning = warn,
                extras = [(''detected_lang'', DStr detected_lang),
                          (''confidence'', DFloat confidence),
                          (''matches_target'', DBool matches_target),
                          (''all_probabilities'',
                             DScores ((detected_lang, confidence) # others))]\<rparr>)"

subsection \<open>Content preservation\<close>

definition WARN_CONTENT_LOSS :: string where
  "WARN_CONTENT_LOSS = ''Potential content loss detected''"

definition WARN_FORMAT_DRIFT :: string where
  "WARN_FORMAT_DRIFT = ''Format preservation issues detected''"

definition nth_opt :: "'a list \<Rightarrow> nat \<Rightarrow> 'a option" where
  "nth_opt xs i = (if i < length xs then Some (xs ! i) else None)"

fun first_some :: "'a option list \<Rightarrow> 'a option" where
  "first_some [] = None"
| "first_some (None # xs) = first_some xs"
| "first_some (Some x # xs) = Some x"

text \<open>
  The numbers are the matches of the regular expression \<^verbatim>\<open>\b\d+(?:[.,]\d+)?%?\b\<close>, found
  by \<open>re.findall\<close>.  The matcher below follows the backtracking order of \<open>re\<close>: every
  quantifier is greedy, so the longest run of digits is tried first, the optional group
  before its absence, and the percent sign before its absence; the first alternative that
  reaches the closing word boundary is the match.  A match is given by its end position.
\<close>

definition boundary :: "char option \<Rightarrow> char option \<Rightarrow> bool" where
  \<comment> \<open>\<^verbatim>\<open>\b\<close> between two neighbours (\<open>None\<close> at either end of the text): exactly one of them
      is a word character\<close>
  "boundary l r \<longleftrightarrow>
     (case l of None \<Rightarrow> False | Some c \<Rightarrow> is_word c)
       \<noteq> (case r of None \<Rightarrow> False | Some c \<Rightarrow> is_word c)"

definition match_tail :: "string \<Rightarrow> nat \<Rightarrow> nat option" where
  \<comment> \<open>\<^verbatim>\<open>%?\b\<close> at position \<open>p\<close>\<close>
  "match_tail s p =
     (if nth_opt s p = Some (CHR ''%'') \<and> boundary (Some (CHR ''%'')) (nth_opt s (p + 1))
      then Some (p + 1)
      else if boundary (nth_opt s (p - 1)) (nth_opt s p) then Some p
      else None)"

definition match_group :: "string \<Rightarrow> nat \<Rightarrow> nat option" where
  \<comment> \<open>\<^verbatim>\<open>(?:[.,]\d+)?%?\b\<close> at position \<open>k\<close>\<close>
  "match_group s k =
     (let with_group =
            (if nth_opt s k = Some (CHR ''.'') \<or> nth_opt s k = Some (CHR '','') then
               (let mmax = length (takeWhile is_digit (drop (k + 1) s))
                in first_some (map (\<lambda>m. match_tail s (k + 1 + m)) (rev [1 ..< mmax + 1])))
             else None)
      in case with_group of Some e \<Rightarrow> Some e | None \<Rightarrow> match_tail s k)"

definition match_number :: "char option \<Rightarrow> string \<Rightarrow> nat option" where
  \<comment> \<open>the whole expression at the head of \<open>s\<close>, the character before it being \<open>prev\<close>\<close>
  "match_number prev s =
     (if boundary prev (nth_opt s 0) then
        (let kmax = length (takeWhile is_digit s)
         in first_some (map (match_group s) (rev [1 ..< kmax + 1])))
      else None)"

function find_numbers :: "char option \<Rightarrow> string \<Rightarrow> string list" where
  \<comment> \<open>\<open>re.findall\<close>: scan from the left; after a match (it holds a digit, so its end \<open>e\<close> is
      at least 1) go on behind it, otherwise one character further\<close>
  "find_numbers prev [] = []"
| "find_numbers prev (c # cs) =
     (case match_number prev (c # cs) of
        Some e \<Rightarrow> take e (c # cs) # find_numbers (nth_opt (c # cs) (e - 1)) (drop (e - 1) cs)
      | None \<Rightarrow> find_numbers (Some c) cs)"
  by pat_completeness auto
termination
  by (relation "measure (\<lambda>(prev, s). length s)") auto

definition extract_numbers :: "string \<Rightarrow> string list" where
  "extract_numbers text = find_numbers None text"

definition punctuation :: string where
  \<comment> \<open>\<open>string.punctuation\<close>\<close>
  "punctuation = ''!'' @ [CHR 0x22] @ ''#$%&'' @ [CHR 0x27] @ ''()*+,-./:;<=>?@[''
                 @ [CHR 0x5C] @ '']^_`{|}~''"

definition extract_punctuation_pattern :: "string \<Rightarrow> string" where
  "extract_punctuation_pattern text = filter (\<lambda>c. c \<in> set punctuation) text"

definition extract_capitalized_words :: "string \<Rightarrow> string list" where
  "extract_capitalized_words text =
     filter (\<lambda>w. case w of [] \<Rightarrow> False | c # cs \<Rightarrow> is_upper c) (split text)"

definition calculate_preservation_score :: "string list \<Rightarrow> string list \<Rightarrow> real" where
  "calculate_preservation_score source_items target_items =
     (if source_items = [] then 100
      else
        let source_set = set source_items;
            target_set = set target_items;
            preserved = card (source_set \<inter> target_set);
            total = card source_set
        in if total > 0 then (real preserved / real total) * 100 else 100)"

definition numbers_check ::
  "string \<Rightarrow> string \<Rightarrow> (string \<times> real) list \<times> string list \<Rightarrow> (string \<times> real) list \<times> string list" where
  \<comment> \<open>the block under \<open>if self.check_numbers\<close>, on the scores and warnings gathered so far\<close>
  "numbers_check source_text target_text acc =
     (case acc of (scores, warns) \<Rightarrow>
        let source_numbers = extract_numbers source_text;
            target_numbers = extract_numbers target_text;
            number_score = calculate_preservation_score source_numbers target_numbers
        in (scores @ [(''numbers'', number_score)],
            if number_score < 100 then
              (let missing = int (length source_numbers)
                               - int (card (set source_numbers \<inter> set target_numbers))
               in warns @ [WARN_CONTENT_LOSS @ '': '' @ str_int missing
                           @ '' number(s) not preserved''])
            else warns))"

definition punctuation_check ::
  "string \<Rightarrow> string \<Rightarrow> (string \<times> real) list \<times> string list \<Rightarrow> (string \<times> real) list \<times> string list" where
  \<comment> \<open>the block under \<open>if self.check_punctuation\<close>\<close>
  "punctuation_check source_text target_text acc =
     (case acc of (scores, warns) \<Rightarrow>
        let source_punct = extract_punctuation_pattern source_text;
            target_punct = extract_punctuation_pattern target_text;
            punct_score =
              (if source_punct \<noteq> [] then
                 (let matches = length (filter (\<lambda>c. c \<in> set target_punct) source_punct)
                  in (real matches / real (length source_punct)) * 100)
               else 100)
        in (scores @ [(''punctuation'', punct_score)],
            if punct_score < 80 then warns @ [WARN_FORMAT_DRIFT @ '': punctuation pattern differs'']
            else warns))"

definition entities_check ::
  "string \<Rightarrow> string \<Rightarrow> (string \<times> real) list \<times> string list \<Rightarrow> (string \<times> real) list \<times> string list" where
  \<comment> \<open>the block under \<open>if self.check_entities\<close>\<close>
  "entities_check source_text target_text acc =
     (case acc of (scores, warns) \<Rightarrow>
        let source_entities = extract_capitalized_words source_text;
            target_entities = extract_capitalized_words target_text;
            entity_score = calculate_preservation_score source_entities target_entities
        in (scores @ [(''entities'', entity_score)],
            if entity_score < 80 then
              warns @ [WARN_CONTENT_LOSS @ '': some capitalized words not preserved'']
            else warns))"

definition preservation_checks ::
  "bool \<Rightarrow> bool \<Rightarrow> bool \<Rightarrow> string \<Rightarrow> string \<Rightarrow> (string \<times> real) list \<times> string list" where
  \<comment> \<open>the component scores and the warnings after the three gated checks\<close>
  "preservation_checks check_numbers check_punctuation check_entities source_text target_text =
     (let acc1 = (if check_numbers then numbers_check source_text target_text ([], [])
                  else ([], []));
          acc2 = (if check_punctuation then punctuation_check source_text target_text acc1
                  else acc1)
      in if check_entities then entities_check source_text target_text acc2 else acc2)"

definition preservation_evaluate ::
  "bool \<Rightarrow> bool \<Rightarrow> bool \<Rightarrow> string \<Rightarrow> string \<Rightarrow> metric_outcome" where
  \<comment> \<open>the mean divides by the number of scores behind the test that there is one\<close>
  "preservation_evaluate check_numbers check_punctuation check_entities source_text target_text =
     (if blank target_text then
        \<lparr>score = Some 0, warning = Some ''Empty translation'', extras = []\<rparr>
      else
        case preservation_checks check_numbers check_punctuation check_entities
               source_text target_text of
          (scores, warns) \<Rightarrow>
            let overall = (if scores \<noteq> [] then sum_list (map snd scores) / real (length scores)
                           else 100)
            in \<lparr>score = Some overall,
                warning = (if warns \<noteq> [] then Some (join ''; '' warns) else None),
                extras = [(''component_scores'', DScores scores)]\<rparr>)"

definition component_scores :: "metric_outcome \<Rightarrow> (string \<times> real) list" where
  \<comment> \<open>\<open>result["component_scores"]\<close>, as the tests read it\<close>
  "component_scores out =
     (case map_of (extras out) ''component_scores'' of Some (DScores xs) \<Rightarrow> xs | _ \<Rightarrow> [])"

section \<open>Semantic similarity\<close>

text \<open>
  The embedding model belongs to the \<open>sentence_transformers\<close> package.  Loading it on first
  use and encoding the two texts either fails with an exception, here \<open>Inl\<close> with its
  message, or yields the two embeddings.
\<close>

type_synonym encoder = "string \<Rightarrow> string \<Rightarrow> string + (real list \<times> real list)"

definition EMBEDDING_MODEL_MULTILINGUAL :: string where
  "EMBEDDING_MODEL_MULTILINGUAL = ''sentence-transformers/paraphrase-multilingual-MiniLM-L12-v2''"

definition str_error :: "py_error \<Rightarrow> string" where
  "str_error e = (case e of ZeroDivisionError \<Rightarrow> ''float division by zero'' | ValueError msg \<Rightarrow> msg)"

text \<open>
  The embeddings are numpy arrays of single-precision floats, and \<open>np.dot\<close>,
  \<open>np.linalg.norm\<close> and the arithmetic on their results stay in single precision: every
  operation returns the single-precision number nearest to the exact result, a tie going
  to the even significand.  A vector is the list of the values of its components.  The
  infinities and not-a-number of IEEE arithmetic (overflow, a quotient by an underflowed
  product) are outside the embedding.
\<close>

definition round_half_even :: "real \<Rightarrow> int" where
  "round_half_even x =
     (let f = \<lfloor>x\<rfloor>;
          d = x - of_int f
      in if d < 1 / 2 then f
         else if d > 1 / 2 then f + 1
         else if even f then f else f + 1)"

definition pow2 :: "int \<Rightarrow> real" where
  "pow2 e = (if 0 \<le> e then 2 ^ nat e else 1 / 2 ^ nat (- e))"

function binade :: "real \<Rightarrow> int \<Rightarrow> int" where
  \<comment> \<open>the exponent of a magnitude, searched downwards from \<open>e\<close>: the largest exponent whose
      power of two is not above it, and -126 for the subnormal numbers\<close>
  "binade a e = (if e \<le> - 126 \<or> pow2 e \<le> a then e else binade a (e - 1))"
  by pat_completeness auto
termination
  by (relation "measure (\<lambda>(a, e). nat (e + 126))") auto

declare binade.simps [simp del]

definition float32 :: "real \<Rightarrow> real" where
  \<comment> \<open>rounding to single precision: 24 significant bits, exponents from -126 to 127\<close>
  "float32 x =
     (let q = pow2 (binade \<bar>x\<bar> 127 - 23)
      in of_int (round_half_even (x / q)) * q)"

definition dot :: "real list \<Rightarrow> real list \<Rightarrow> py_error + real" where
  \<comment> \<open>\<open>np.dot\<close> of two vectors raises when their lengths differ; the products are summed
      from the left\<close>
  "dot vec1 vec2 =
     (if length vec1 \<noteq> length vec2 then Inl (ValueError ''shapes not aligned'')
      else Inr (foldl (\<lambda>acc (x, y). float32 (acc + float32 (x * y))) 0 (zip vec1 vec2)))"

definition linalg_norm :: "real list \<Rightarrow> real" where
  \<comment> \<open>\<open>np.linalg.norm\<close> of a vector: the square root of its product with itself\<close>
  "linalg_norm vec =
     float32 (sqrt (foldl (\<lambda>acc x. float32 (acc + float32 (x * x))) 0 vec))"

definition cosine_similarity :: "real list \<Rightarrow> real list \<Rightarrow> py_error + real" where
  \<comment> \<open>the final \<open>float(...)\<close> converts the single-precision quotient exactly\<close>
  "cosine_similarity vec1 vec2 =
     (case dot vec1 vec2 of
        Inl e \<Rightarrow> Inl e
      | Inr dot_product \<Rightarrow>
          let norm1 = linalg_norm vec1;
              norm2 = linalg_norm vec2
          in if norm1 = 0 \<or> norm2 = 0 then Inr 0
             else Inr (float32 (dot_product / float32 (norm1 * norm2))))"

definition semantic_similarity_evaluate ::
  "encoder \<Rightarrow> string \<Rightarrow> string \<Rightarrow> string \<Rightarrow> metric_outcome" where
  \<comment> \<open>\<open>except Exception\<close> turns every failure inside the \<open>try\<close> into score 0 with a warning\<close>
  "semantic_similarity_evaluate encode model_name source_text target_text =
     (if source_text = [] \<or> target_text = [] then
        \<lparr>score = Some 0, warning = Some ''Empty text'', extras = [(''similarity'', DFloat 0)]\<rparr>
      else
        let computed =
              (case encode source_text target_text of
                 Inl msg \<Rightarrow> Inl msg
               | Inr (source_embedding, target_embedding) \<Rightarrow>
                   (case cosine_similarity source_embedding target_embedding of
                      Inl e \<Rightarrow> Inl (str_error e)
                    | Inr similarity \<Rightarrow> Inr similarity))
        in case computed of
             Inr similarity \<Rightarrow>
               \<lparr>score = Some (max 0 similarity * 100), warning = None,
                extras = [(''similarity'', DFloat similarity), (''model'', DStr model_name)]\<rparr>
           | Inl msg \<Rightarrow>
               \<lparr>score = Some 0, warning = Some (''Similarity calculation error: '' @ msg),
                extras = [(''similarity'', DFloat 0)]\<rparr>)"

section \<open>Score fusion\<close>

definition metric_config_map :: "(string \<times> string \<times> string) list" where
  "metric_config_map =
     [(''language_detection'', CATEGORY_HEURISTICS, ''language_detection''),
      (''length_ratio'', CATEGORY_HEURISTICS, ''length_ratio''),
      (''repetition'', CATEGORY_HEURISTICS, ''repetition''),
      (''preservation'', CATEGORY_HEURISTICS, ''preservation''),
      (''semantic_similarity'', CATEGORY_SEMANTIC, '''')]"

definition get_metric_weight :: "config \<Rightarrow> string \<Rightarrow> real" where
  "get_metric_weight cfg metric_name =
     (case map_of metric_config_map metric_name of
        Some (category, metric) \<Rightarrow>
          if metric \<noteq> [] then config_get_metric_weight cfg category metric
          else get_float cfg (''metrics.'' @ category @ ''.weight'') 0
      | None \<Rightarrow> 0)"

definition get_score :: "metric_outcome \<Rightarrow> real" where
  \<comment> \<open>\<open>result.get("score", 0.0)\<close>\<close>
  "get_score r = (case score r of None \<Rightarrow> 0 | Some s \<Rightarrow> s)"


fun fuse_loop ::
  "config \<Rightarrow> real list \<times> metric_result list \<times> string list \<Rightarrow>
   (string \<times> metric_outcome) list \<Rightarrow> real list \<times> metric_result list \<times> string list" where
  "fuse_loop cfg acc [] = acc"
| "fuse_loop cfg (weighted_scores, metric_list, warns) ((metric_name, result) # rest) =
     (if metric_name = METRIC_OVERALL then fuse_loop cfg (weighted_scores, metric_list, warns) rest
      else
        let sc = get_score result;
            w = get_metric_weight cfg metric_name
        in if w > 0 then
             fuse_loop cfg
               (weighted_scores @ [sc * w],
                metric_list @ [\<lparr>name = metric_name, value = sc, weight = w, details = result\<rparr>],
                (case warning result of
                   Some w \<Rightarrow> if w \<noteq> [] then warns @ [metric_name @ '': '' @ w] else warns
                 | None \<Rightarrow> warns))
               rest
           else fuse_loop cfg (weighted_scores, metric_list, warns) rest)"

definition quality_tier :: "real \<Rightarrow> string" where
  "quality_tier overall =
     (if overall \<ge> 90 then ''Excellent''
      else if overall \<ge> 75 then ''Good''
      else if overall \<ge> 60 then ''Fair''
      else ''Poor'')"

definition generate_explanation ::
  "(nat \<Rightarrow> real \<Rightarrow> string) \<Rightarrow> metric_result list \<Rightarrow> real \<Rightarrow> string" where
  \<comment> \<open>\<open>fmt d x\<close> stands for Python's \<open>f"{x:.df}"\<close>; \<open>sorted(..., reverse=True)\<close> is stable, which
      is the stable ascending sort on the negated key\<close>
  "generate_explanation fmt ms overall =
     (let quality = quality_tier overall;
          sorted_metrics = sort_key (\<lambda>m. - (value m * weight m)) ms;
          top_metrics = take 3 sorted_metrics;
          top_names = map (\<lambda>m. title (replace_char (CHR ''_'') (CHR '' '') (name m))) top_metrics
      in quality @ '' translation quality (score: '' @ fmt 1 overall @ ''/100). ''
           @ ''Top factors: '' @ join '', '' top_names @ ''.'')"

definition fuse_scores ::
  "(nat \<Rightarrow> real \<Rightarrow> string) \<Rightarrow> config \<Rightarrow> (string \<times> metric_outcome) list \<Rightarrow> score_breakdown" where
  "fuse_scores fmt cfg metric_results =
     (case fuse_loop cfg ([], [], []) metric_results of
        (weighted_scores, metric_list, warns) \<Rightarrow>
          let overall =
                (if weighted_scores \<noteq> [] then
                   (let total_weight = sum_list (map weight metric_list)
                    in if total_weight > 0 then sum_list weighted_scores / total_weight else 0)
                 else 0)
          in \<lparr>overall_score = overall,
              metrics = metric_list,
              warnings = warns,
              explanation = Some (generate_explanation fmt metric_list overall)\<rparr>)"

section \<open>Evaluation orchestrator\<close>

definition CONFIDENCE_THRESHOLD :: real where
  \<comment> \<open>the default of \<open>LanguageDetectionMetric\<close>, which the orchestrator does not override\<close>
  "CONFIDENCE_THRESHOLD = 8 / 10"

record evaluator =
  ev_config :: config
  ev_min_ratio :: real
  ev_max_ratio :: real
  ev_check_numbers :: bool
  ev_check_punctuation :: bool
  ev_check_entities :: bool
  ev_semantic_model :: "string option"

definition evaluator_init :: "config \<Rightarrow> evaluator" where
  \<comment> \<open>\<open>Evaluator.__init__\<close>: the semantic metric exists only when the configuration enables
      it, under the key that \<open>is_metric_enabled("semantic", "")\<close> builds\<close>
  "evaluator_init cfg =
     \<lparr>ev_config = cfg,
      ev_min_ratio = get_float cfg ''metrics.heuristics.length_ratio.min_ratio'' (1 / 2),
      ev_max_ratio = get_float cfg ''metrics.heuristics.length_ratio.max_ratio'' 2,
      ev_check_numbers = get_flag cfg ''metrics.heuristics.preservation.check_numbers'' True,
      ev_check_punctuation = get_flag cfg ''metrics.heuristics.preservation.check_punctuation'' True,
      ev_check_entities = get_flag cfg ''metrics.heuristics.preservation.check_entities'' True,
      ev_semantic_model =
        (if is_metric_enabled cfg ''semantic'' [] then
           Some (get_text cfg ''metrics.semantic.model'' EMBEDDING_MODEL_MULTILINGUAL)
         else None)\<rparr>"

definition run_metrics ::
  "(nat \<Rightarrow> real \<Rightarrow> string) \<Rightarrow> detector \<Rightarrow> encoder \<Rightarrow> evaluator \<Rightarrow> string \<Rightarrow> string \<Rightarrow> string \<Rightarrow>
   py_error + (string \<times> metric_outcome) list" where
  \<comment> \<open>the dictionary \<open>metric_results\<close> as \<open>evaluate_translation\<close> fills it; an exception of a
      metric is not caught here\<close>
  "run_metrics fmt detect_langs encode ev source_text target_text target_lang =
     (let cfg = ev_config ev;
          r1 = (if is_metric_enabled cfg ''heuristics'' ''language_detection'' then
                  [(''language_detection'',
                    language_detection_evaluate detect_langs CONFIDENCE_THRESHOLD
                      source_text target_text target_lang)]
                else [])
      in case (if is_metric_enabled cfg ''heuristics'' ''length_ratio'' then
                 (case length_ratio_evaluate fmt (ev_min_ratio ev) (ev_max_ratio ev)
                         source_text target_text of
                    Inl e \<Rightarrow> Inl e
                  | Inr out \<Rightarrow> Inr (r1 @ [(''length_ratio'', out)]))
               else Inr r1) of
           Inl e \<Rightarrow> Inl e
         | Inr r2 \<Rightarrow>
             let r3 = (if is_metric_enabled cfg ''heuristics'' ''repetition'' then
                         r2 @ [(''repetition'',
                                repetition_evaluate fmt MAX_NGRAM_SIZE REPETITION_THRESHOLD
                                  source_text target_text)]
                       else r2);
                 r4 = (if is_metric_enabled cfg ''heuristics'' ''preservation'' then
                         r3 @ [(''preservation'',
                                preservation_evaluate (ev_check_numbers ev)
                                  (ev_check_punctuation ev) (ev_check_entities ev)
                                  source_text target_text)]
                       else r3)
             in Inr (case ev_semantic_model ev of
                       Some model_name \<Rightarrow>
                         r4 @ [(''semantic_similarity'',
                                semantic_similarity_evaluate encode model_name
                                  source_text target_text)]
                     | None \<Rightarrow> r4))"

definition evaluate_translation ::
  "(nat \<Rightarrow> real \<Rightarrow> string) \<Rightarrow> detector \<Rightarrow> encoder \<Rightarrow> evaluator \<Rightarrow>
   int \<Rightarrow> string \<Rightarrow> string \<Rightarrow> string \<Rightarrow> string \<Rightarrow> string \<Rightarrow> string option \<Rightarrow> string option \<Rightarrow>
   py_error + evaluation_result" where
  "evaluate_translation fmt detect_langs encode ev tid provider model
       source_text target_text target_lang source_lang reference_translation =
     (case run_metrics fmt detect_langs encode ev source_text target_text target_lang of
        Inl e \<Rightarrow> Inl e
      | Inr metric_results \<Rightarrow>
          Inr \<lparr>translation_id = tid,
               provider_name = provider,
               model_id = model,
               score_breakdown = fuse_scores fmt (ev_config ev) metric_results\<rparr>)"

section \<open>Notions used in the statements\<close>

definition claimed_repetition :: "'a list \<Rightarrow> real" where
  \<comment> \<open>the per-size repetition value in the specification's words: the frequency factor is
      always taken into the maximum\<close>
  "claimed_repetition ngrams =
     (let total_ngrams = real (length ngrams);
          unique_ngrams = real (card (set ngrams));
          max_ngram_frequency = real (Max (count_list ngrams ` set ngrams))
      in max (1 - unique_ngrams / total_ngrams) (min (max_ngram_frequency / total_ngrams) 1))"

definition length_ratio_curve :: "real \<Rightarrow> real \<Rightarrow> real \<Rightarrow> real" where
  \<comment> \<open>the scoring curve in the specification's words, as a function of the ratio\<close>
  "length_ratio_curve min_ratio max_ratio ratio =
     (if min_ratio \<le> ratio \<and> ratio \<le> max_ratio then
        (if ratio < 1 then max 50 ((ratio - min_ratio) / (1 - min_ratio) * 100)
         else max 50 ((max_ratio - ratio) / (max_ratio - 1) * 100))
      else
        (if ratio < min_ratio then max 0 (min 50 (ratio / min_ratio * 50))
         else max 0 (min 50 (max_ratio / ratio * 50))))"

definition in_range :: "metric_outcome \<Rightarrow> bool" where
  \<comment> \<open>the outcome carries a score and it lies between 0 and 100\<close>
  "in_range out \<longleftrightarrow> (\<exists>s. score out = Some s \<and> 0 \<le> s \<and> s \<le> 100)"

definition scores_ok :: "(string \<times> real) list \<Rightarrow> bool" where
  \<comment> \<open>every component score lies between 0 and 100\<close>
  "scores_ok scores \<longleftrightarrow> list_all (\<lambda>p. 0 \<le> snd p \<and> snd p \<le> 100) scores"

section \<open>Concrete inputs used by the examples\<close>

definition cfg_two_weights :: config where
  \<comment> \<open>language detection with weight 2, length ratio with weight 1, nothing else\<close>
  "cfg_two_weights =
     \<lparr>floats = [''metrics.heuristics.language_detection.weight'' \<mapsto> 2,
                ''metrics.heuristics.length_ratio.weight'' \<mapsto> 1],
      flags = Map.empty, texts = Map.empty\<rparr>"

definition cfg_max_ratio_one :: config where
  \<comment> \<open>only the length ratio is enabled, with weight 1 and \<open>max_ratio = 1.0\<close>\<close>
  "cfg_max_ratio_one =
     \<lparr>floats = [''metrics.heuristics.length_ratio.max_ratio'' \<mapsto> 1,
                ''metrics.heuristics.length_ratio.weight'' \<mapsto> 1],
      flags = [''metrics.heuristics.length_ratio.enabled'' \<mapsto> True],
      texts = Map.empty\<rparr>"

section \<open>Properties of the score fusion\<close>

lemma overall_weight_zero: "get_metric_weight cfg METRIC_OVERALL = 0"
  by (simp add: get_metric_weight_def METRIC_OVERALL_def metric_config_map_def)

text \<open>
  The loop of \<open>fuse_scores\<close> appends, for the entries of positive weight and in their order,
  one weighted score, one \<open>MetricResult\<close> and at most one warning.
\<close>

lemma fuse_loop_filter:
  "fuse_loop cfg (ws, ms, wn) rs =
     (ws @ map (\<lambda>(n, r). get_score r * get_metric_weight cfg n)
             (filter (\<lambda>(n, r). 0 < get_metric_weight cfg n) rs),
      ms @ map (\<lambda>(n, r). \<lparr>name = n, value = get_score r,
                          weight = get_metric_weight cfg n, details = r\<rparr>)
             (filter (\<lambda>(n, r). 0 < get_metric_weight cfg n) rs),
      wn @ concat (map (\<lambda>(n, r). case warning r of
                                    Some w \<Rightarrow> if w \<noteq> [] then [n @ '': '' @ w] else []
                                  | None \<Rightarrow> [])
             (filter (\<lambda>(n, r). 0 < get_metric_weight cfg n) rs)))"
proof (induction rs arbitrary: ws ms wn)
  case Nil
  show ?case by simp
next
  case (Cons p rs)
  obtain n r where p: "p = (n, r)" by (cases p)
  show ?case
    using overall_weight_zero [of cfg]
    by (auto simp: p Cons.IH Let_def split: option.splits)
qed

lemmas fuse_loop_start = fuse_loop_filter [of _ "[]" "[]" "[]", simplified]

lemma pos_sum_filter:
  "filter (\<lambda>(n, r). 0 < (f n :: real)) rs \<noteq> [] \<Longrightarrow>
   0 < (\<Sum>(n, r)\<leftarrow>filter (\<lambda>(n, r). 0 < f n) rs. f n)"
proof (induction rs)
  case Nil
  then show ?case by simp
next
  case (Cons p rs)
  obtain n r where p: "p = (n, r)" by (cases p)
  have nn: "0 \<le> (\<Sum>(n, r)\<leftarrow>filter (\<lambda>(n, r). 0 < f n) rs. f n)"
    by (rule sum_list_nonneg) auto
  show ?case
  proof (cases "0 < f n")
    case True
    with nn show ?thesis by (simp add: p add_pos_nonneg)
  next
    case False
    with Cons show ?thesis by (simp add: p)
  qed
qed

lemma weight_of_result:
  "weight \<circ> (\<lambda>(n, r). \<lparr>name = n, value = get_score r,
                         weight = get_metric_weight cfg n, details = r\<rparr>)
     = (\<lambda>(n, r). get_metric_weight cfg n)"
  by (auto simp: fun_eq_iff)

text \<open>
  C1.  The overall score is the weighted mean of the scores over exactly the entries
  whose resolved weight is positive, and 0 when there is none.  The instance below fuses
  scores 80 and 50 under weights 2 and 1 to 70.
\<close>

theorem fuse_scores_weighted_mean:
  "overall_score (fuse_scores fmt cfg rs) =
     (let kept = filter (\<lambda>(n, r). 0 < get_metric_weight cfg n) rs
      in if kept = [] then 0
         else (\<Sum>(n, r)\<leftarrow>kept. get_score r * get_metric_weight cfg n)
                / (\<Sum>(n, r)\<leftarrow>kept. get_metric_weight cfg n))"
proof (cases "filter (\<lambda>(n, r). 0 < get_metric_weight cfg n) rs = []")
  case True
  then show ?thesis
    by (simp add: fuse_scores_def fuse_loop_start Let_def)
next
  case False
  then have "0 < (\<Sum>(n, r)\<leftarrow>filter (\<lambda>(n, r). 0 < get_metric_weight cfg n) rs.
                    get_metric_weight cfg n)"
    by (rule pos_sum_filter)
  then show ?thesis using False
    by (simp add: fuse_scores_def fuse_loop_start Let_def weight_of_result)
qed

theorem fuse_scores_weighted_mean_witness:
  "overall_score (fuse_scores (\<lambda>d x. []) cfg_two_weights
      [(''language_detection'', \<lparr>score = Some 80, warning = None, extras = []\<rparr>),
       (''length_ratio'', \<lparr>score = Some 50, warning = None, extras = []\<rparr>)]) = 70"
  using fuse_scores_weighted_mean [of "\<lambda>d x. []" cfg_two_weights
      "[(''language_detection'', \<lparr>score = Some 80, warning = None, extras = []\<rparr>),
        (''length_ratio'', \<lparr>score = Some 50, warning = None, extras = []\<rparr>)]"]
  by (simp add: get_metric_weight_def metric_config_map_def config_get_metric_weight_def
      get_float_def cfg_two_weights_def CATEGORY_HEURISTICS_def CATEGORY_SEMANTIC_def
      get_score_def)

section \<open>Properties of the repetition metric\<close>

lemma unique_tokens: "length (split (str_lower ''This is a unique translation.'')) = 5"
  by code_simp

lemma unique_not_blank: "\<not> blank ''This is a unique translation.''"
  by code_simp

lemma unique_loop:
  "fold (repetition_step ''This is a unique translation.'') [2 ..< MAX_NGRAM_SIZE + 1] ([], 0)
     = ([(''2-gram'', 0), (''3-gram'', 0), (''4-gram'', 0)], 0)"
  by code_simp

lemma unique_outcome:
  "repetition_evaluate fmt MAX_NGRAM_SIZE REPETITION_THRESHOLD src ''This is a unique translation.''
     = \<lparr>score = Some 100, warning = None,
        extras = [(''repetition_score'', DFloat 0),
                  (''ngram_scores'', DScores [(''2-gram'', 0), (''3-gram'', 0), (''4-gram'', 0)])]\<rparr>"
  by (simp only: repetition_evaluate_def unique_loop unique_not_blank if_False)
     (simp add: REPETITION_THRESHOLD_def)

lemma repeated_tokens: "length (split (str_lower ''test test test test test test'')) = 6"
  by code_simp

lemma repeated_not_blank: "\<not> blank ''test test test test test test''"
  by code_simp

lemma repeated_loop:
  "fold (repetition_step ''test test test test test test'') [2 ..< MAX_NGRAM_SIZE + 1] ([], 0)
     = ([(''2-gram'', 1), (''3-gram'', 1), (''4-gram'', 1)], 1)"
  by code_simp

lemma repeated_outcome:
  "repetition_evaluate fmt MAX_NGRAM_SIZE REPETITION_THRESHOLD src ''test test test test test test''
     = \<lparr>score = Some 0,
        warning = Some (WARN_HIGH_REPETITION @ '' (score: '' @ fmt 2 1 @ '')''),
        extras = [(''repetition_score'', DFloat 1),
                  (''ngram_scores'', DScores [(''2-gram'', 1), (''3-gram'', 1), (''4-gram'', 1)])]\<rparr>"
  by (simp only: repetition_evaluate_def repeated_loop repeated_not_blank if_False)
     (simp add: REPETITION_THRESHOLD_def)

text \<open>
  C9.  With the default maximal size 4 and threshold 0.3, the target
  \<open>This is a unique translation.\<close> scores above 70 (it scores 100) without a warning, and the
  target \<open>test test test test test test\<close> scores below 50 (it scores 0) with a warning, its
  maximal repetition being above the threshold.
\<close>

theorem repetition_examples:
  "(\<exists>s. score (repetition_evaluate fmt MAX_NGRAM_SIZE REPETITION_THRESHOLD src
                 ''This is a unique translation.'') = Some s \<and> 70 < s)
   \<and> warning (repetition_evaluate fmt MAX_NGRAM_SIZE REPETITION_THRESHOLD src
                 ''This is a unique translation.'') = None
   \<and> (\<exists>s. score (repetition_evaluate fmt MAX_NGRAM_SIZE REPETITION_THRESHOLD src
                 ''test test test test test test'') = Some s \<and> s < 50)
   \<and> (\<exists>w. warning (repetition_evaluate fmt MAX_NGRAM_SIZE REPETITION_THRESHOLD src
                 ''test test test test test test'') = Some w)
   \<and> REPETITION_THRESHOLD
       < snd (fold (repetition_step ''test test test test test test'')
                [2 ..< MAX_NGRAM_SIZE + 1] ([], 0))"
  by (simp only: unique_outcome repeated_outcome repeated_loop)
     (simp add: REPETITION_THRESHOLD_def)

lemma length_counter: "length (counter xs) = card (set xs)"
  by (simp add: counter_def length_remdups_card_conv)

lemma max_list_Max: "ys \<noteq> [] \<Longrightarrow> max_list ys = Max (set ys)"
  by (cases ys) (simp_all add: Max.set_eq_fold [symmetric] del: set_simps)

lemma max_count_Max:
  assumes "xs \<noteq> []"
  shows "max_list (map snd (counter xs)) = Max (count_list xs ` set xs)"
proof -
  have m: "map snd (counter xs) = map (count_list xs) (remdups xs)"
    by (simp add: counter_def comp_def)
  have "remdups xs \<noteq> []" using assms by simp
  then show ?thesis by (simp add: m max_list_Max)
qed

lemma count_le_1_distinct: "(\<forall>x\<in>set xs. count_list xs x \<le> 1) \<Longrightarrow> distinct xs"
proof (induction xs)
  case Nil
  show ?case by simp
next
  case (Cons a xs)
  from Cons.prems have "count_list xs a = 0" by simp
  then have a: "a \<notin> set xs" by (simp add: count_list_0_iff)
  have "\<forall>x\<in>set xs. count_list xs x \<le> 1"
  proof
    fix x assume x: "x \<in> set xs"
    with Cons.prems have "count_list (a # xs) x \<le> 1" by simp
    then show "count_list xs x \<le> 1" by (simp split: if_splits)
  qed
  with Cons.IH a show ?case by simp
qed

lemma Max_count_le_1_distinct:
  assumes "xs \<noteq> []" and "\<not> 1 < Max (count_list xs ` set xs)"
  shows "distinct xs"
proof (rule count_le_1_distinct, rule ballI)
  fix x assume "x \<in> set xs"
  then have "count_list xs x \<le> Max (count_list xs ` set xs)" by simp
  with assms(2) show "count_list xs x \<le> 1" by simp
qed

lemma get_ngrams_nonempty:
  "n \<le> length (split (str_lower text)) \<Longrightarrow> get_ngrams text n \<noteq> []"
  by (simp add: get_ngrams_def Let_def)

lemma calculate_repetition_score_cases:
  assumes ne: "ngrams \<noteq> []"
  shows "calculate_repetition_score ngrams =
     (let total_ngrams = real (length ngrams);
          unique_ngrams = real (card (set ngrams));
          max_ngram_frequency = Max (count_list ngrams ` set ngrams)
      in if 1 < max_ngram_frequency
         then max (1 - unique_ngrams / total_ngrams)
                  (min (real max_ngram_frequency / total_ngrams) 1)
         else 0)"
proof (cases "1 < Max (count_list ngrams ` set ngrams)")
  case True
  with ne show ?thesis
    by (simp add: calculate_repetition_score_def Let_def length_counter max_count_Max)
next
  case False
  with ne have "distinct ngrams" by (rule Max_count_le_1_distinct)
  then have "card (set ngrams) = length ngrams" by (rule distinct_card)
  with ne False show ?thesis
    by (simp add: calculate_repetition_score_def Let_def length_counter max_count_Max)
qed

text \<open>
  C3, as the code has it.  For a text with at least \<open>n\<close> tokens, \<open>n\<close> from 2 on, the
  per-size value is the maximum of \<open>1 - unique / total\<close> and the frequency factor
  \<open>min (max_frequency / total) 1\<close> when some n-gram occurs more than once; when every n-gram
  occurs exactly once the frequency factor is left out and the value is 0.
\<close>

theorem repetition_frequency_factor_guarded:
  assumes "2 \<le> n" and "n \<le> length (split (str_lower text))"
  shows "calculate_repetition_score (get_ngrams text n) =
     (let ngrams = get_ngrams text n;
          total_ngrams = real (length ngrams);
          unique_ngrams = real (card (set ngrams));
          max_ngram_frequency = Max (count_list ngrams ` set ngrams)
      in if 1 < max_ngram_frequency
         then max (1 - unique_ngrams / total_ngrams)
                  (min (real max_ngram_frequency / total_ngrams) 1)
         else 0)"
  using calculate_repetition_score_cases [OF get_ngrams_nonempty [OF assms(2)]]
  by (simp add: Let_def)

lemma repeated_max:
  "Max (count_list (get_ngrams ''test test test test test test'' 2)
          ` set (get_ngrams ''test test test test test test'' 2)) = 5"
  by code_simp

lemma repeated_card: "card (set (get_ngrams ''test test test test test test'' 2)) = 1"
  by code_simp

lemma repeated_length: "length (get_ngrams ''test test test test test test'' 2) = 5"
  by code_simp

theorem repetition_frequency_factor_guarded_witness:
  "(2::nat) \<le> 2 \<and> 2 \<le> length (split (str_lower ''test test test test test test''))
   \<and> calculate_repetition_score (get_ngrams ''test test test test test test'' 2) = 1"
  using repetition_frequency_factor_guarded [of 2 "''test test test test test test''"]
  by (simp add: repeated_tokens repeated_max repeated_card repeated_length Let_def)

lemma unique_ngrams:
  "get_ngrams ''This is a unique translation.'' 2
     = [[''this'', ''is''], [''is'', ''a''], [''a'', ''unique''], [''unique'', ''translation.'']]"
  by code_simp

lemma unique_code: "calculate_repetition_score (get_ngrams ''This is a unique translation.'' 2) = 0"
  by code_simp

lemma unique_claimed: "claimed_repetition (get_ngrams ''This is a unique translation.'' 2) = 1 / 4"
  unfolding unique_ngrams claimed_repetition_def by (simp add: Let_def)

text \<open>
  C3, as the specification words it, fails: the four 2-grams of
  \<open>This is a unique translation.\<close> are all different, the code returns 0 and the formula
  with the frequency factor gives 1/4.
\<close>

theorem repetition_frequency_factor_counterexample:
  "\<not> (\<forall>text n. \<not> blank text \<and> 2 \<le> n \<and> n \<le> MAX_NGRAM_SIZE
                 \<and> n \<le> length (split (str_lower text))
         \<longrightarrow> calculate_repetition_score (get_ngrams text n)
               = claimed_repetition (get_ngrams text n))"
proof
  assume a: "\<forall>text n. \<not> blank text \<and> 2 \<le> n \<and> n \<le> MAX_NGRAM_SIZE
                 \<and> n \<le> length (split (str_lower text))
         \<longrightarrow> calculate_repetition_score (get_ngrams text n)
               = claimed_repetition (get_ngrams text n)"
  from a [rule_format, of "''This is a unique translation.''" 2]
  have "calculate_repetition_score (get_ngrams ''This is a unique translation.'' 2)
      = claimed_repetition (get_ngrams ''This is a unique translation.'' 2)"
    by (simp add: unique_tokens unique_not_blank MAX_NGRAM_SIZE_def)
  then show False by (simp add: unique_code unique_claimed)
qed

section \<open>Further properties of the score fusion\<close>

lemma fuse_loop_cong:
  assumes "filter (\<lambda>(n, r). 0 < get_metric_weight cfg n) rs
         = filter (\<lambda>(n, r). 0 < get_metric_weight cfg n) rs'"
  shows "fuse_loop cfg acc rs = fuse_loop cfg acc rs'"
proof -
  obtain ws ms wn where acc: "acc = (ws, ms, wn)" by (cases acc)
  show ?thesis unfolding acc fuse_loop_filter assms ..
qed

lemma fuse_scores_cong:
  assumes "filter (\<lambda>(n, r). 0 < get_metric_weight cfg n) rs
         = filter (\<lambda>(n, r). 0 < get_metric_weight cfg n) rs'"
  shows "fuse_scores fmt cfg rs = fuse_scores fmt cfg rs'"
  unfolding fuse_scores_def fuse_loop_cong [OF assms] ..

lemma metrics_fuse_scores:
  "metrics (fuse_scores fmt cfg rs) =
     map (\<lambda>(n, r). \<lparr>name = n, value = get_score r,
                       weight = get_metric_weight cfg n, details = r\<rparr>)
       (filter (\<lambda>(n, r). 0 < get_metric_weight cfg n) rs)"
  by (simp add: fuse_scores_def fuse_loop_start Let_def)

lemma warnings_fuse_scores:
  "warnings (fuse_scores fmt cfg rs) =
     concat (map (\<lambda>(n, r). case warning r of
                               Some w \<Rightarrow> if w \<noteq> [] then [n @ '': '' @ w] else []
                             | None \<Rightarrow> [])
       (filter (\<lambda>(n, r). 0 < get_metric_weight cfg n) rs))"
  by (simp add: fuse_scores_def fuse_loop_start Let_def)

text \<open>
  C2.  Every \<open>MetricResult\<close> of the breakdown belongs to an entry of positive resolved
  weight; the metrics and the name-prefixed warnings are exactly those of the entries of
  positive weight, in their order; and removing the entries of weight 0 from the input
  changes nothing in the breakdown, so neither such a metric nor its warning reaches it.
\<close>

theorem zero_weight_dropped:
  "(\<forall>m \<in> set (metrics (fuse_scores fmt cfg rs)). 0 < get_metric_weight cfg (name m))
   \<and> metrics (fuse_scores fmt cfg rs) =
       map (\<lambda>(n, r). \<lparr>name = n, value = get_score r,
                         weight = get_metric_weight cfg n, details = r\<rparr>)
         (filter (\<lambda>(n, r). 0 < get_metric_weight cfg n) rs)
   \<and> warnings (fuse_scores fmt cfg rs) =
       concat (map (\<lambda>(n, r). case warning r of
                                 Some w \<Rightarrow> if w \<noteq> [] then [n @ '': '' @ w] else []
                               | None \<Rightarrow> [])
         (filter (\<lambda>(n, r). 0 < get_metric_weight cfg n) rs))
   \<and> fuse_scores fmt cfg (filter (\<lambda>(n, r). get_metric_weight cfg n \<noteq> 0) rs)
       = fuse_scores fmt cfg rs"
proof (intro conjI)
  show "\<forall>m \<in> set (metrics (fuse_scores fmt cfg rs)). 0 < get_metric_weight cfg (name m)"
    by (auto simp: metrics_fuse_scores)
  show "fuse_scores fmt cfg (filter (\<lambda>(n, r). get_metric_weight cfg n \<noteq> 0) rs)
       = fuse_scores fmt cfg rs"
    by (rule fuse_scores_cong) (auto intro: filter_cong)
qed (rule metrics_fuse_scores warnings_fuse_scores)+

theorem zero_weight_dropped_witness:
  "map name (metrics (fuse_scores (\<lambda>d x. []) cfg_two_weights
      [(''language_detection'', \<lparr>score = Some 80, warning = Some ''low'', extras = []\<rparr>),
       (''repetition'', \<lparr>score = Some 10, warning = Some ''high'', extras = []\<rparr>)]))
     = [''language_detection'']
   \<and> warnings (fuse_scores (\<lambda>d x. []) cfg_two_weights
      [(''language_detection'', \<lparr>score = Some 80, warning = Some ''low'', extras = []\<rparr>),
       (''repetition'', \<lparr>score = Some 10, warning = Some ''high'', extras = []\<rparr>)])
     = [''language_detection: low'']"
  using zero_weight_dropped [of "\<lambda>d x. []" cfg_two_weights
      "[(''language_detection'', \<lparr>score = Some 80, warning = Some ''low'', extras = []\<rparr>),
        (''repetition'', \<lparr>score = Some 10, warning = Some ''high'', extras = []\<rparr>)]"]
  by (simp add: get_metric_weight_def metric_config_map_def config_get_metric_weight_def
      get_float_def cfg_two_weights_def CATEGORY_HEURISTICS_def CATEGORY_SEMANTIC_def)

text \<open>
  C10.  An entry keyed \<open>overall_score\<close> is ignored: the breakdown is the same with the
  entry removed, put in front or put at the end, no \<open>MetricResult\<close> carries that name,
  and the warnings come from the other entries only.
\<close>

theorem overall_entry_ignored:
  "fuse_scores fmt cfg (filter (\<lambda>(n, r). n \<noteq> METRIC_OVERALL) rs) = fuse_scores fmt cfg rs
   \<and> fuse_scores fmt cfg ((METRIC_OVERALL, r0) # rs) = fuse_scores fmt cfg rs
   \<and> fuse_scores fmt cfg (rs @ [(METRIC_OVERALL, r0)]) = fuse_scores fmt cfg rs
   \<and> METRIC_OVERALL \<notin> name ` set (metrics (fuse_scores fmt cfg rs))
   \<and> warnings (fuse_scores fmt cfg rs) =
       concat (map (\<lambda>(n, r). case warning r of
                                 Some w \<Rightarrow> if w \<noteq> [] then [n @ '': '' @ w] else []
                               | None \<Rightarrow> [])
         (filter (\<lambda>(n, r). n \<noteq> METRIC_OVERALL \<and> 0 < get_metric_weight cfg n) rs))"
proof (intro conjI)
  have *: "\<And>n. 0 < get_metric_weight cfg n \<Longrightarrow> n \<noteq> METRIC_OVERALL"
    using overall_weight_zero [of cfg] by auto
  show "fuse_scores fmt cfg (filter (\<lambda>(n, r). n \<noteq> METRIC_OVERALL) rs) = fuse_scores fmt cfg rs"
    by (rule fuse_scores_cong) (auto intro: filter_cong dest: *)
  show "fuse_scores fmt cfg ((METRIC_OVERALL, r0) # rs) = fuse_scores fmt cfg rs"
    by (rule fuse_scores_cong) (simp add: overall_weight_zero)
  show "fuse_scores fmt cfg (rs @ [(METRIC_OVERALL, r0)]) = fuse_scores fmt cfg rs"
    by (rule fuse_scores_cong) (simp add: overall_weight_zero)
  show "METRIC_OVERALL \<notin> name ` set (metrics (fuse_scores fmt cfg rs))"
    using overall_weight_zero [of cfg] by (auto simp: metrics_fuse_scores)
  have "filter (\<lambda>(n, r). n \<noteq> METRIC_OVERALL \<and> 0 < get_metric_weight cfg n) rs
      = filter (\<lambda>(n, r). 0 < get_metric_weight cfg n) rs"
    by (auto intro: filter_cong dest: *)
  then show "warnings (fuse_scores fmt cfg rs) =
       concat (map (\<lambda>(n, r). case warning r of
                                 Some w \<Rightarrow> if w \<noteq> [] then [n @ '': '' @ w] else []
                               | None \<Rightarrow> [])
         (filter (\<lambda>(n, r). n \<noteq> METRIC_OVERALL \<and> 0 < get_metric_weight cfg n) rs))"
    by (simp add: warnings_fuse_scores)
qed

theorem overall_entry_ignored_witness:
  "fuse_scores (\<lambda>d x. []) cfg_two_weights
      [(''language_detection'', \<lparr>score = Some 80, warning = None, extras = []\<rparr>),
       (''overall_score'', \<lparr>score = Some 10, warning = Some ''bad'', extras = []\<rparr>)]
   = fuse_scores (\<lambda>d x. []) cfg_two_weights
      [(''language_detection'', \<lparr>score = Some 80, warning = None, extras = []\<rparr>)]"
  using overall_entry_ignored [of "\<lambda>d x. []" cfg_two_weights
      "[(''language_detection'', \<lparr>score = Some 80, warning = None, extras = []\<rparr>),
        (''overall_score'', \<lparr>score = Some 10, warning = Some ''bad'', extras = []\<rparr>)]"]
  by (simp add: METRIC_OVERALL_def)

section \<open>Properties of the length ratio metric\<close>

lemma length_ratio_score_curve:
  assumes src: "source_text \<noteq> []" and tgt: "target_text \<noteq> []"
    and defined: "\<not> (max_ratio = 1 \<and> min_ratio \<le> 1 \<and> length target_text = length source_text)"
  shows "\<exists>out. length_ratio_evaluate fmt min_ratio max_ratio source_text target_text = Inr out
           \<and> score out = Some (length_ratio_curve min_ratio max_ratio
                                 (real (length target_text) / real (length source_text)))"
proof -
  define ratio where "ratio = real (length target_text) / real (length source_text)"
  have pos: "0 < ratio" using src tgt by (simp add: ratio_def)
  have one: "ratio = 1 \<longleftrightarrow> length target_text = length source_text"
    using src by (auto simp: ratio_def)
  consider (short) "min_ratio \<le> ratio" "ratio \<le> max_ratio" "ratio < 1"
    | (long) "min_ratio \<le> ratio" "ratio \<le> max_ratio" "1 \<le> ratio"
    | (below) "ratio < min_ratio"
    | (above) "min_ratio \<le> ratio" "max_ratio < ratio"
    by linarith
  then show ?thesis
  proof cases
    case short
    then have "1 - min_ratio \<noteq> 0" by simp
    with short src tgt show ?thesis
      by (simp add: length_ratio_evaluate_def length_ratio_curve_def py_div_def Let_def
          ratio_def [symmetric])
  next
    case long
    have "max_ratio - 1 \<noteq> 0"
    proof
      assume "max_ratio - 1 = 0"
      then have m: "max_ratio = 1" by simp
      with long have "ratio = 1" by simp
      with one m long defined show False by simp
    qed
    with long src tgt show ?thesis
      by (simp add: length_ratio_evaluate_def length_ratio_curve_def py_div_def Let_def
          ratio_def [symmetric])
  next
    case below
    with pos have "min_ratio \<noteq> 0" by simp
    with below src tgt show ?thesis
      by (simp add: length_ratio_evaluate_def length_ratio_curve_def py_div_def Let_def
          ratio_def [symmetric])
  next
    case above
    from pos have "ratio \<noteq> 0" by simp
    with above src tgt show ?thesis
      by (simp add: length_ratio_evaluate_def length_ratio_curve_def py_div_def Let_def
          ratio_def [symmetric])
  qed
qed

text \<open>
  C4.  The score does not follow the curve for every pair of non-empty texts.  With
  \<open>max_ratio = 1.0\<close> (and the default \<open>min_ratio = 0.5\<close>) a source and a target of the same
  length have ratio 1.0, which lies inside the band; the branch for \<open>ratio \<ge> 1\<close> divides by
  \<open>max_ratio - 1.0\<close>, and the metric raises \<open>ZeroDivisionError\<close> where the curve is floored at
  50.  Away from that input the metric returns the curve, as \<open>length_ratio_score_curve\<close>
  shows.
\<close>

theorem length_ratio_raises_inside_band:
  "length_ratio_evaluate fmt (1 / 2) 1 ''ab'' ''cd'' = Inl ZeroDivisionError"
  by (simp add: length_ratio_evaluate_def Let_def py_div_def)

section \<open>Properties of the language detection metric\<close>

text \<open>
  C6.  On a non-blank target for which the detector returns a non-empty ranked list, the
  score is 100 (and there is no warning) when the top language is the target language with
  confidence at least the threshold, \<open>confidence * 100\<close> with the low-confidence warning
  when it matches below the threshold, and 0 with the warning naming the expected and the
  detected language when it differs.
\<close>

theorem language_match_scoring:
  assumes "\<not> blank target_text"
    and "detect_langs target_text = Inr ((lang, conf) # others)"
  shows "(lang = target_lang \<and> threshold \<le> conf \<longrightarrow>
            score (language_detection_evaluate detect_langs threshold source_text target_text target_lang)
              = Some 100
          \<and> warning (language_detection_evaluate detect_langs threshold source_text target_text target_lang)
              = None)
       \<and> (lang = target_lang \<and> conf < threshold \<longrightarrow>
            score (language_detection_evaluate detect_langs threshold source_text target_text target_lang)
              = Some (conf * 100)
          \<and> warning (language_detection_evaluate detect_langs threshold source_text target_text target_lang)
              = Some WARN_LOW_CONFIDENCE)
       \<and> (lang \<noteq> target_lang \<longrightarrow>
            score (language_detection_evaluate detect_langs threshold source_text target_text target_lang)
              = Some 0
          \<and> warning (language_detection_evaluate detect_langs threshold source_text target_text target_lang)
              = Some (''Language mismatch: expected '' @ [CHR 0x27] @ target_lang @ [CHR 0x27]
                      @ '', detected '' @ [CHR 0x27] @ lang @ [CHR 0x27]))"
  using assms by (simp add: language_detection_evaluate_def Let_def)

lemma hola_not_blank: "\<not> blank ''Hola, mundo!''" by code_simp

theorem language_match_scoring_witness:
  "\<not> blank ''Hola, mundo!''
   \<and> score (language_detection_evaluate (\<lambda>t. Inr [(''es'', 9 / 10), (''pt'', 1 / 10)]) (8 / 10)
        ''Hello, world!'' ''Hola, mundo!'' ''es'') = Some 100
   \<and> score (language_detection_evaluate (\<lambda>t. Inr [(''es'', 9 / 10), (''pt'', 1 / 10)]) (8 / 10)
        ''Hello, world!'' ''Hola, mundo!'' ''fr'') = Some 0"
  using language_match_scoring [OF hola_not_blank, of "\<lambda>t. Inr [(''es'', 9 / 10), (''pt'', 1 / 10)]"
          "''es''" "9 / 10" "[(''pt'', 1 / 10)]" "''es''" "8 / 10" "''Hello, world!''"]
        language_match_scoring [OF hola_not_blank, of "\<lambda>t. Inr [(''es'', 9 / 10), (''pt'', 1 / 10)]"
          "''es''" "9 / 10" "[(''pt'', 1 / 10)]" "''fr''" "8 / 10" "''Hello, world!''"]
        hola_not_blank
  by simp

section \<open>Properties of the preservation metric\<close>

lemma fst_punctuation_check:
  "fst (punctuation_check s t acc) = fst acc @ fst (punctuation_check s t ([], []))"
  by (cases acc) (simp add: punctuation_check_def Let_def)

lemma snd_punctuation_check:
  "snd (punctuation_check s t acc) = snd acc @ snd (punctuation_check s t ([], []))"
  by (cases acc) (simp add: punctuation_check_def Let_def)

lemma fst_entities_check:
  "fst (entities_check s t acc) = fst acc @ fst (entities_check s t ([], []))"
  by (cases acc) (simp add: entities_check_def Let_def)

lemma snd_entities_check:
  "snd (entities_check s t acc) = snd acc @ snd (entities_check s t ([], []))"
  by (cases acc) (simp add: entities_check_def Let_def)

lemma calculate_preservation_score_sets:
  "calculate_preservation_score xs ys =
     (if xs = [] then 100 else real (card (set xs \<inter> set ys)) / real (card (set xs)) * 100)"
proof (cases "xs = []")
  case True
  then show ?thesis by (simp add: calculate_preservation_score_def)
next
  case False
  then have "0 < card (set xs)" by (simp add: card_gt_0_iff)
  with False show ?thesis by (simp add: calculate_preservation_score_def Let_def)
qed

lemma numbers_check_start:
  "numbers_check s t ([], []) =
     ([(''numbers'', calculate_preservation_score (extract_numbers s) (extract_numbers t))],
      if calculate_preservation_score (extract_numbers s) (extract_numbers t) < 100 then
        [WARN_CONTENT_LOSS @ '': ''
           @ str_int (int (length (extract_numbers s))
                      - int (card (set (extract_numbers s) \<inter> set (extract_numbers t))))
           @ '' number(s) not preserved'']
      else [])"
  by (simp add: numbers_check_def Let_def)

lemma preservation_checks_numbers:
  "preservation_checks True cp ce s t =
     (fst (numbers_check s t ([], [])) @ fst (preservation_checks False cp ce s t),
      snd (numbers_check s t ([], [])) @ snd (preservation_checks False cp ce s t))"
proof -
  let ?n = "numbers_check s t ([], [])"
  let ?p = "punctuation_check s t"
  let ?e = "entities_check s t"
  have pe: "fst (?e (?p ?n)) = fst ?n @ fst (?e (?p ([], [])))"
           "snd (?e (?p ?n)) = snd ?n @ snd (?e (?p ([], [])))"
    using fst_entities_check [of s t "?p ?n"] fst_entities_check [of s t "?p ([], [])"]
      snd_entities_check [of s t "?p ?n"] snd_entities_check [of s t "?p ([], [])"]
      fst_punctuation_check [of s t ?n] snd_punctuation_check [of s t ?n]
    by simp_all
  show ?thesis
    unfolding preservation_checks_def Let_def prod_eq_iff
    using pe fst_punctuation_check [of s t ?n] snd_punctuation_check [of s t ?n]
      fst_entities_check [of s t ?n] snd_entities_check [of s t ?n]
    by (cases cp; cases ce) simp_all
qed

lemma component_scores_evaluate:
  "\<not> blank t \<Longrightarrow>
   component_scores (preservation_evaluate cn cp ce s t) = fst (preservation_checks cn cp ce s t)"
  by (simp add: preservation_evaluate_def component_scores_def Let_def split: prod.splits)

lemma warning_evaluate:
  "\<not> blank t \<Longrightarrow>
   warning (preservation_evaluate cn cp ce s t) =
     (if snd (preservation_checks cn cp ce s t) = [] then None
      else Some (join ''; '' (snd (preservation_checks cn cp ce s t))))"
  by (simp add: preservation_evaluate_def Let_def split: prod.splits)

lemma numbers_component_formula:
  assumes "\<not> blank target_text"
  shows "let source_numbers = extract_numbers source_text;
             target_numbers = extract_numbers target_text;
             component =
               (if source_numbers = [] then 100
                else real (card (set source_numbers \<inter> set target_numbers))
                       / real (card (set source_numbers)) * 100);
             number_warning =
               WARN_CONTENT_LOSS @ '': ''
                 @ str_int (int (length source_numbers)
                            - int (card (set source_numbers \<inter> set target_numbers)))
                 @ '' number(s) not preserved'';
             warns = (if component < 100 then [number_warning] else [])
                       @ snd (preservation_checks False check_punctuation check_entities
                                source_text target_text);
             out = preservation_evaluate True check_punctuation check_entities
                     source_text target_text
         in map_of (component_scores out) ''numbers'' = Some component
          \<and> snd (preservation_checks True check_punctuation check_entities
                    source_text target_text) = warns
          \<and> warning out = (if warns = [] then None else Some (join ''; '' warns))"
  using assms
  by (simp add: Let_def component_scores_evaluate warning_evaluate preservation_checks_numbers
      numbers_check_start calculate_preservation_score_sets)

lemma percent_sign_needs_word_after:
  "extract_numbers ''50% of 3.14 and 7%x'' = [''50'', ''3.14'', ''7%'']"
  by code_simp

lemma percent_source: "extract_numbers ''Sales grew 50% in May.'' = [''50'']"
  by code_simp

lemma percent_target: "extract_numbers ''Las ventas crecieron 50 en mayo.'' = [''50'']"
  by code_simp

lemma percent_component:
  "map_of (component_scores (preservation_evaluate True True True
      ''Sales grew 50% in May.'' ''Las ventas crecieron 50 en mayo.'')) ''numbers'' = Some 100"
  by code_simp

lemma repeated_source: "extract_numbers ''5 and 5 and 7'' = [''5'', ''5'', ''7'']"
  by code_simp

lemma repeated_target: "extract_numbers ''5'' = [''5'']"
  by code_simp

lemma repeated_outcome_numbers:
  "preservation_evaluate True False False ''5 and 5 and 7'' ''5''
     = \<lparr>score = Some 50,
        warning = Some ''Potential content loss detected: 2 number(s) not preserved'',
        extras = [(''component_scores'', DScores [(''numbers'', 50)])]\<rparr>"
  by code_simp

lemma ordinal_not_a_number: "extract_numbers (''El 1'' @ [CHR 0xBA] @ '' de mayo'') = []"
  by code_simp

text \<open>
  C8.  The numbers component is the set formula over the matches of the regular expression
  (\<open>numbers_component_formula\<close>), but the matches are not the tokens of the claim and the
  warning does not name the missing count.  The closing \<^verbatim>\<open>\b\<close> of the expression lets a
  percent sign into a match only when a word character follows it: from
  \<open>Sales grew 50% in May.\<close> the number taken is \<open>50\<close>, so a target that keeps \<open>50\<close> and drops the
  percent sign has component 100 and no number warning.  The count in the warning is the
  length of the list of source numbers minus the size of the intersection: for the source
  \<open>5 and 5 and 7\<close> and the target \<open>5\<close> one number of two is missing, the component is 50, and
  the warning names 2.
\<close>

theorem numbers_percent_and_count:
  "extract_numbers ''Sales grew 50% in May.'' = [''50'']
   \<and> extract_numbers ''Las ventas crecieron 50 en mayo.'' = [''50'']
   \<and> map_of (component_scores (preservation_evaluate True True True
         ''Sales grew 50% in May.'' ''Las ventas crecieron 50 en mayo.'')) ''numbers'' = Some 100
   \<and> extract_numbers ''5 and 5 and 7'' = [''5'', ''5'', ''7'']
   \<and> extract_numbers ''5'' = [''5'']
   \<and> card (set (extract_numbers ''5 and 5 and 7'') - set (extract_numbers ''5'')) = 1
   \<and> preservation_evaluate True False False ''5 and 5 and 7'' ''5''
       = \<lparr>score = Some 50,
          warning = Some ''Potential content loss detected: 2 number(s) not preserved'',
          extras = [(''component_scores'', DScores [(''numbers'', 50)])]\<rparr>"
  by (simp add: percent_source percent_target percent_component repeated_source
      repeated_target repeated_outcome_numbers)

section \<open>Single-precision rounding in the cosine similarity\<close>

lemma pow2_mono:
  assumes "e \<le> e'"
  shows "pow2 e \<le> pow2 e'"
proof -
  consider (pos) "0 \<le> e" | (mixed) "e < 0" "0 \<le> e'" | (neg) "e' < 0"
    using assms by linarith
  then show ?thesis
  proof cases
    case pos
    with assms have "nat e \<le> nat e'" and "0 \<le> e'" by simp_all
    then have "(2 :: real) ^ nat e \<le> 2 ^ nat e'" by (intro power_increasing) simp_all
    with pos \<open>0 \<le> e'\<close> show ?thesis by (simp only: pow2_def if_True)
  next
    case mixed
    have "1 / (2 :: real) ^ nat (- e) \<le> 1" by simp
    also have "\<dots> \<le> 2 ^ nat e'" by simp
    finally show ?thesis using mixed by (simp only: pow2_def if_True if_False not_le [symmetric])
  next
    case neg
    with assms have lt: "e < 0" and n: "nat (- e') \<le> nat (- e)" by simp_all
    from n have "(2 :: real) ^ nat (- e') \<le> 2 ^ nat (- e)" by (intro power_increasing) simp_all
    then have "1 / (2 :: real) ^ nat (- e) \<le> 1 / 2 ^ nat (- e')"
      by (intro divide_left_mono) simp_all
    with neg lt show ?thesis by (simp only: pow2_def if_False not_le [symmetric])
  qed
qed

lemma binade_found:
  assumes "- 126 \<le> e0" and "pow2 e0 \<le> a" and "a < pow2 (e0 + 1)" and "e0 \<le> e"
  shows "binade a e = e0"
  using assms(4)
proof (induction "nat (e - e0)" arbitrary: e)
  case 0
  then have "e = e0" by simp
  with assms show ?case by (subst binade.simps) simp
next
  case (Suc n)
  then have lt: "e0 + 1 \<le> e" by simp
  then have "pow2 (e0 + 1) \<le> pow2 e" by (rule pow2_mono)
  with assms(3) have np: "\<not> pow2 e \<le> a" by simp
  from lt assms(1) have ne: "\<not> e \<le> - 126" by simp
  have "binade a e = binade a (e - 1)"
    using np ne by (subst binade.simps) simp
  also have "\<dots> = e0" using Suc lt by (intro Suc.hyps(1)) simp_all
  finally show ?case .
qed

lemma round_half_even_near:
  assumes "real_of_int n - 1 / 2 < x" and "x < real_of_int n + 1 / 2"
  shows "round_half_even x = n"
proof (cases "real_of_int n \<le> x")
  case True
  with assms have f: "\<lfloor>x\<rfloor> = n" by (simp add: floor_eq_iff)
  with assms show ?thesis by (simp add: round_half_even_def Let_def)
next
  case False
  with assms have f: "\<lfloor>x\<rfloor> = n - 1" by (simp add: floor_eq_iff)
  with assms False show ?thesis by (simp add: round_half_even_def Let_def)
qed

lemma sqrt2_bounds:
  "11863283 - 1 / 2 < sqrt 2 * 2 ^ 23" "sqrt 2 * 2 ^ 23 < 11863283 + 1 / 2"
proof -
  have "(11863283 - 1 / 2 :: real)\<^sup>2 < (sqrt 2 * 2 ^ 23)\<^sup>2"
    by (simp add: power_mult_distrib power2_eq_square)
  then show "11863283 - 1 / 2 < sqrt 2 * 2 ^ 23"
    by (rule power2_less_imp_less) simp
  have "(sqrt 2 * 2 ^ 23)\<^sup>2 < (11863283 + 1 / 2 :: real)\<^sup>2"
    by (simp add: power_mult_distrib power2_eq_square)
  then show "sqrt 2 * 2 ^ 23 < 11863283 + 1 / 2"
    by (rule power2_less_imp_less) simp
qed

text \<open>The single-precision square root of 2 is 11863283 / 2^23.\<close>

lemma float32_sqrt2: "float32 (sqrt 2) = 11863283 / 2 ^ 23"
proof -
  have one: "1 \<le> sqrt 2" by simp
  have two: "sqrt 2 < 2" by (rule real_less_lsqrt) simp_all
  have b: "binade (sqrt 2) 127 = 0"
    by (rule binade_found) (use one two in \<open>simp_all add: pow2_def\<close>)
  have r: "round_half_even (sqrt 2 / pow2 (- 23)) = 11863283"
    by (rule round_half_even_near) (use sqrt2_bounds in \<open>simp_all add: pow2_def\<close>)
  show ?thesis by (simp add: float32_def b r Let_def) (simp add: pow2_def)
qed

lemma float32_one: "float32 1 = 1"
  by code_simp

lemma float32_two: "float32 2 = 2"
  by code_simp

lemma squares_ones: "foldl (\<lambda>acc x. float32 (acc + float32 (x * x))) 0 [1, 1] = 2"
  by (simp add: float32_one float32_two)

lemma dot_ones: "dot [1, 1] [1, 1] = Inr 2"
  by (simp add: dot_def float32_one float32_two)

lemma norm_ones: "linalg_norm [1, 1] = 11863283 / 2 ^ 23"
  by (simp only: linalg_norm_def squares_ones float32_sqrt2)

lemma norm_product: "float32 (11863283 / 2 ^ 23 * (11863283 / 2 ^ 23)) = 16777215 / 2 ^ 23"
  by code_simp

lemma quotient_ones: "float32 (2 / (16777215 / 2 ^ 23)) = 1 + 1 / 2 ^ 23"
  by code_simp

lemma cosine_ones: "cosine_similarity [1, 1] [1, 1] = Inr (1 + 1 / 2 ^ 23)"
proof -
  have nz: "(11863283 / 2 ^ 23 :: real) \<noteq> 0" by simp
  show ?thesis
    unfolding cosine_similarity_def dot_ones norm_ones
    by (simp only: sum.case Let_def nz norm_product quotient_ones simp_thms if_False)
qed

text \<open>
  C7.  Not every score lies in [0, 100].  The semantic metric floors the similarity at 0
  and has no bound above.  When the source and the target have the same embedding, here
  the vector (1, 1), the single-precision norm is 11863283 / 2^23, the product of the two
  norms rounds to 16777215 / 2^23, and the quotient rounds to 1 + 2^-23: the score is
  100 + 100 / 2^23, above 100.
\<close>

theorem semantic_score_exceeds_100:
  "score (semantic_similarity_evaluate (\<lambda>s t. Inr ([1, 1], [1, 1])) model_name
            ''Hello'' ''Hello'') = Some (100 + 100 / 2 ^ 23)
   \<and> (100 :: real) < 100 + 100 / 2 ^ 23
   \<and> \<not> in_range (semantic_similarity_evaluate (\<lambda>s t. Inr ([1, 1], [1, 1])) model_name
            ''Hello'' ''Hello'')"
proof -
  have s: "score (semantic_similarity_evaluate (\<lambda>s t. Inr ([1, 1], [1, 1])) model_name
            ''Hello'' ''Hello'') = Some (100 + 100 / 2 ^ 23)"
    by (simp add: semantic_similarity_evaluate_def cosine_ones Let_def)
  then show ?thesis by (simp add: in_range_def)
qed

section \<open>Score ranges of the heuristic metrics\<close>

text \<open>
  In exact arithmetic the four heuristic metrics keep their scores in [0, 100]: language
  detection when the top confidence of the detector is a probability, the length ratio
  whenever it returns an outcome.
\<close>

lemma language_in_range:
  assumes "\<And>l c others. detect_langs t = Inr ((l, c) # others) \<Longrightarrow> 0 \<le> c \<and> c \<le> 1"
  shows "in_range (language_detection_evaluate detect_langs threshold s t target_lang)"
  using assms
  by (auto simp: language_detection_evaluate_def in_range_def Let_def
      split: sum.splits list.splits)

lemma length_ratio_in_range:
  assumes "length_ratio_evaluate fmt min_ratio max_ratio s t = Inr out"
  shows "in_range out"
proof (cases "s = [] \<or> t = []")
  case True
  with assms show ?thesis
    by (auto simp: length_ratio_evaluate_def in_range_def Let_def split: if_splits)
next
  case False
  define ratio where "ratio = real (length t) / real (length s)"
  have pos: "0 < ratio" using False by (simp add: ratio_def)
  have clamp: "\<And>q::real. 0 \<le> max 0 (min 50 (q * 50)) \<and> max 0 (min 50 (q * 50)) \<le> 100"
    by (auto simp: max_def min_def)
  have band: "\<And>q::real. q \<le> 1 \<Longrightarrow> 0 \<le> max 50 (q * 100) \<and> max 50 (q * 100) \<le> 100"
    by (auto simp: max_def)
  consider (short) "min_ratio \<le> ratio" "ratio \<le> max_ratio" "ratio < 1"
    | (long) "min_ratio \<le> ratio" "ratio \<le> max_ratio" "1 \<le> ratio"
    | (outside) "\<not> (min_ratio \<le> ratio \<and> ratio \<le> max_ratio)"
    by linarith
  then show ?thesis
  proof cases
    case short
    then have "(ratio - min_ratio) / (1 - min_ratio) \<le> 1" by (simp add: divide_le_eq)
    from band [OF this] short False assms show ?thesis
      by (auto simp: length_ratio_evaluate_def in_range_def Let_def py_div_def
          ratio_def [symmetric] split: if_splits)
  next
    case long
    show ?thesis
    proof (cases "max_ratio = 1")
      case True
      with long False assms show ?thesis
        by (auto simp: length_ratio_evaluate_def in_range_def Let_def py_div_def
            ratio_def [symmetric] split: if_splits)
    next
      case False
      with long have "1 < max_ratio" by simp
      with long have "(max_ratio - ratio) / (max_ratio - 1) \<le> 1" by (simp add: divide_le_eq)
      from band [OF this] long \<open>\<not> (s = [] \<or> t = [])\<close> assms show ?thesis
        by (auto simp: length_ratio_evaluate_def in_range_def Let_def py_div_def
            ratio_def [symmetric] split: if_splits)
    qed
  next
    case outside
    with False assms clamp show ?thesis
      by (auto simp: length_ratio_evaluate_def in_range_def Let_def py_div_def
          ratio_def [symmetric] split: if_splits)
  qed
qed

lemma calculate_repetition_score_bounds:
  "0 \<le> calculate_repetition_score ngrams \<and> calculate_repetition_score ngrams \<le> 1"
proof (cases "ngrams = []")
  case True
  then show ?thesis by (simp add: calculate_repetition_score_def)
next
  case False
  then have len: "0 < length ngrams" by simp
  have "card (set ngrams) \<le> length ngrams" by (rule card_length)
  then have u: "real (card (set ngrams)) / real (length ngrams) \<le> 1"
    using len by (simp add: divide_le_eq)
  have u0: "0 \<le> real (card (set ngrams)) / real (length ngrams)" by simp
  from u u0 False show ?thesis
    by (auto simp: calculate_repetition_score_def Let_def length_counter max_def min_def)
qed

lemma repetition_loop_bounds:
  "0 \<le> mx \<Longrightarrow> mx \<le> 1 \<Longrightarrow>
   0 \<le> snd (fold (repetition_step t) ns (sc, mx)) \<and> snd (fold (repetition_step t) ns (sc, mx)) \<le> 1"
proof (induction ns arbitrary: sc mx)
  case Nil
  then show ?case by simp
next
  case (Cons n ns)
  obtain sc' mx' where st: "repetition_step t n (sc, mx) = (sc', mx')"
    by (cases "repetition_step t n (sc, mx)")
  have "0 \<le> mx' \<and> mx' \<le> 1"
    using st Cons.prems calculate_repetition_score_bounds [of "get_ngrams t n"]
    by (auto simp: repetition_step_def Let_def max_def split: if_splits)
  then show ?case using Cons.IH [of mx' sc'] by (simp add: st)
qed

lemma repetition_in_range:
  "in_range (repetition_evaluate fmt max_ngram_size threshold s t)"
proof -
  obtain sc mx where f: "fold (repetition_step t) [2 ..< max_ngram_size + 1] ([], 0) = (sc, mx)"
    by (cases "fold (repetition_step t) [2 ..< max_ngram_size + 1] ([], 0)")
  have "0 \<le> snd (fold (repetition_step t) [2 ..< max_ngram_size + 1] ([], 0))
      \<and> snd (fold (repetition_step t) [2 ..< max_ngram_size + 1] ([], 0)) \<le> 1"
    by (rule repetition_loop_bounds) simp_all
  then have "0 \<le> mx \<and> mx \<le> 1" by (simp only: f snd_conv)
  then show ?thesis
    unfolding repetition_evaluate_def f by (simp add: in_range_def Let_def)
qed

lemma calculate_preservation_score_bounds:
  "0 \<le> calculate_preservation_score xs ys \<and> calculate_preservation_score xs ys \<le> 100"
proof -
  have "card (set xs \<inter> set ys) \<le> card (set xs)" by (rule card_mono) auto
  then show ?thesis
    by (auto simp: calculate_preservation_score_def Let_def divide_le_eq)
qed

lemma punct_score_bounds:
  "xs \<noteq> [] \<Longrightarrow> 0 \<le> real (length (filter P xs)) / real (length xs) * 100
     \<and> real (length (filter P xs)) / real (length xs) * 100 \<le> 100"
  using length_filter_le [of P xs] by (simp add: divide_le_eq)

lemma numbers_check_ok: "scores_ok (fst acc) \<Longrightarrow> scores_ok (fst (numbers_check s t acc))"
  using calculate_preservation_score_bounds [of "extract_numbers s" "extract_numbers t"]
  by (cases acc) (simp add: numbers_check_def scores_ok_def Let_def)

lemma punctuation_check_ok: "scores_ok (fst acc) \<Longrightarrow> scores_ok (fst (punctuation_check s t acc))"
  using punct_score_bounds [of "extract_punctuation_pattern s" "\<lambda>c. c \<in> set (extract_punctuation_pattern t)"]
  by (cases acc) (simp add: punctuation_check_def scores_ok_def Let_def)

lemma entities_check_ok: "scores_ok (fst acc) \<Longrightarrow> scores_ok (fst (entities_check s t acc))"
  using calculate_preservation_score_bounds [of "extract_capitalized_words s" "extract_capitalized_words t"]
  by (cases acc) (simp add: entities_check_def scores_ok_def Let_def)

lemma preservation_checks_ok: "scores_ok (fst (preservation_checks cn cp ce s t))"
proof -
  have e: "scores_ok []" by (simp add: scores_ok_def)
  show ?thesis
    unfolding preservation_checks_def Let_def
    by (cases cn; cases cp; cases ce)
       (simp_all add: e numbers_check_ok punctuation_check_ok entities_check_ok)
qed

lemma mean_bounds:
  "scores_ok scores \<Longrightarrow> scores \<noteq> [] \<Longrightarrow>
   0 \<le> sum_list (map snd scores) / real (length scores)
   \<and> sum_list (map snd scores) / real (length scores) \<le> 100"
proof -
  assume ok: "scores_ok scores" and ne: "scores \<noteq> []"
  have lo: "0 \<le> sum_list (map snd scores)"
    using ok by (intro sum_list_nonneg) (auto simp: scores_ok_def list_all_iff)
  have "sum_list (map snd scores) \<le> sum_list (map (\<lambda>p. 100) scores)"
    using ok by (intro sum_list_mono) (auto simp: scores_ok_def list_all_iff)
  then have hi: "sum_list (map snd scores) \<le> 100 * real (length scores)"
    by (simp add: sum_list_triv)
  from lo hi ne show ?thesis by (simp add: divide_le_eq)
qed

lemma preservation_in_range:
  "in_range (preservation_evaluate cn cp ce s t)"
proof -
  obtain sc w where c: "preservation_checks cn cp ce s t = (sc, w)"
    by (cases "preservation_checks cn cp ce s t")
  have ok: "scores_ok sc" using preservation_checks_ok [of cn cp ce s t] by (simp add: c)
  show ?thesis
    using mean_bounds [OF ok]
    by (auto simp: preservation_evaluate_def in_range_def c Let_def)
qed

section \<open>Properties of the orchestrator\<close>

lemma length_ratio_raises:
  assumes "s \<noteq> []" and "length t = length s" and "min_ratio \<le> 1"
  shows "length_ratio_evaluate fmt min_ratio 1 s t = Inl ZeroDivisionError"
  using assms by (auto simp: length_ratio_evaluate_def Let_def py_div_def)

lemma length_ratio_returns:
  assumes "\<not> (max_ratio = 1 \<and> min_ratio \<le> 1 \<and> length t = length s \<and> s \<noteq> [])"
  shows "\<exists>out. length_ratio_evaluate fmt min_ratio max_ratio s t = Inr out"
proof (cases "s = [] \<or> t = []")
  case True
  then show ?thesis by (auto simp: length_ratio_evaluate_def Let_def)
next
  case False
  then have "\<not> (max_ratio = 1 \<and> min_ratio \<le> 1 \<and> length t = length s)"
    using assms by simp
  with False length_ratio_score_curve [of s t max_ratio min_ratio fmt] show ?thesis by auto
qed

lemma run_metrics_raises:
  assumes "is_metric_enabled (ev_config ev) ''heuristics'' ''length_ratio''"
    and "ev_max_ratio ev = 1" and "ev_min_ratio ev \<le> 1"
    and "s \<noteq> []" and "length t = length s"
  shows "run_metrics fmt detect_langs encode ev s t target_lang = Inl ZeroDivisionError"
  using assms length_ratio_raises [of s t "ev_min_ratio ev" fmt]
  by (simp add: run_metrics_def Let_def)

text \<open>
  C5.  The evaluation is not total.  With the length ratio enabled and \<open>max_ratio = 1.0\<close>,
  a source and a target of the same positive length make the metric divide by
  \<open>max_ratio - 1.0\<close>; nothing between the metric and the caller of the orchestrator catches
  the \<open>ZeroDivisionError\<close>.
\<close>

theorem evaluation_raises_zero_division:
  "evaluate_translation fmt detect_langs encode (evaluator_init cfg_max_ratio_one)
     tid provider model ''ab'' ''cd'' target_lang source_lang reference_translation
   = Inl ZeroDivisionError"
proof -
  have "run_metrics fmt detect_langs encode (evaluator_init cfg_max_ratio_one) ''ab'' ''cd'' target_lang
      = Inl ZeroDivisionError"
    by (rule run_metrics_raises)
       (simp_all add: evaluator_init_def cfg_max_ratio_one_def is_metric_enabled_def
          get_flag_def get_float_def)
  then show ?thesis by (simp add: evaluate_translation_def)
qed

lemma run_metrics_returns:
  assumes "ev_max_ratio ev \<noteq> 1"
  shows "\<exists>rs. run_metrics fmt detect_langs encode ev s t target_lang = Inr rs"
proof -
  obtain out where "length_ratio_evaluate fmt (ev_min_ratio ev) (ev_max_ratio ev) s t = Inr out"
    using length_ratio_returns [of "ev_max_ratio ev" "ev_min_ratio ev" t s fmt] assms by auto
  then show ?thesis by (simp add: run_metrics_def Let_def)
qed

lemma evaluate_translation_returns:
  assumes "ev_max_ratio ev \<noteq> 1"
  shows "\<exists>res. evaluate_translation fmt detect_langs encode ev tid provider model s t
                  target_lang source_lang reference_translation = Inr res"
  using run_metrics_returns [OF assms, of fmt detect_langs encode s t target_lang]
  by (auto simp: evaluate_translation_def)

end
